theory Spec2Isabelle
  imports
    Main
    "HOL-Library.Char_ord"
    "HOL-Library.List_Lexorder"
    "HOL-Library.AList"
    "HOL-Library.Multiset"
begin

section \<open>The interface generator of \<^verbatim>\<open>python_scripts/generate_interfaces.py\<close>\<close>

text \<open>
  The script turns every \<^verbatim>\<open>.json\<close> entry of a directory into one C declaration and one
  C definition, collects them into a header and a source text, and either writes the two
  texts or compares them with the files on disk. Its only function is
  \<^verbatim>\<open>generate_interfaces(interfaces_dir, output_dir, output_fn, check)\<close>.

  Python strings are modelled as \<^typ>\<open>string\<close>; the model is exact on ASCII text, which is
  what the templates and the upper-casing of type tags are about. Python's unbounded
  integers are \<^typ>\<open>int\<close>. An uncaught exception and \<^verbatim>\<open>sys.exit\<close> are values of the
  result, next to the file system the run leaves behind.
\<close>

subsection \<open>Python strings\<close>

text \<open>\<^verbatim>\<open>str.upper()\<close> on ASCII: the letters a to z move to A to Z, every other character stays.\<close>

definition upper_char :: "char \<Rightarrow> char" where
  "upper_char c =
     (if CHR ''a'' \<le> c \<and> c \<le> CHR ''z'' then char_of (of_char c - (32::nat)) else c)"

definition upper :: "string \<Rightarrow> string" where
  "upper s = map upper_char s"

text \<open>\<^verbatim>\<open>s.replace(old, new)\<close> for one-character \<^verbatim>\<open>old\<close> and \<^verbatim>\<open>new\<close>.\<close>

definition replace :: "char \<Rightarrow> char \<Rightarrow> string \<Rightarrow> string" where
  "replace old new s = map (\<lambda>c. if c = old then new else c) s"

text \<open>\<^verbatim>\<open>sep.join(xs)\<close>.\<close>

fun str_join :: "string \<Rightarrow> string list \<Rightarrow> string" where
  "str_join sep [] = []"
| "str_join sep [x] = x"
| "str_join sep (x # y # ys) = x @ sep @ str_join sep (y # ys)"

text \<open>\<^verbatim>\<open>str(n)\<close> for an integer: decimal digits, a minus sign for a negative number.\<close>

definition digit_char :: "nat \<Rightarrow> char" where
  "digit_char d = char_of (48 + d)"

fun str_nat :: "nat \<Rightarrow> string" where
  "str_nat n = (if n < 10 then [digit_char n] else str_nat (n div 10) @ [digit_char (n mod 10)])"

declare str_nat.simps [simp del]

definition str_int :: "int \<Rightarrow> string" where
  "str_int i = (if i < 0 then CHR ''-'' # str_nat (nat (- i)) else str_nat (nat i))"

subsection \<open>Paths and the file system\<close>

text \<open>
  A path is the list of its components below the root; the paths handed to
  \<^verbatim>\<open>generate_interfaces\<close> are absolute. The file system is an association list from paths to
  nodes, whose order stands for the order in which the operating system enumerates a
  directory. Files hold the text that \<^verbatim>\<open>open(..., encoding="utf-8")\<close> reads and writes.
  Permissions, disk space and the text codec are not modelled: a write to an existing
  directory succeeds, and a read returns the text written.
\<close>

type_synonym path = "string list"

datatype node = Dir | File string

type_synonym filesystem = "(path \<times> node) list"

datatype exn =
    FileNotFoundError path
  | NotADirectoryError path
  | IsADirectoryError path
  | FileExistsError path
  | KeyError int
  | LoaderError string

definition node_at :: "filesystem \<Rightarrow> path \<Rightarrow> node option" where
  "node_at fs p = (if p = [] then Some Dir else map_of fs p)"

text \<open>\<^verbatim>\<open>Path.exists()\<close>.\<close>

definition exists :: "filesystem \<Rightarrow> path \<Rightarrow> bool" where
  "exists fs p = (node_at fs p \<noteq> None)"

definition is_file_node :: "node option \<Rightarrow> bool" where
  "is_file_node n = (case n of Some (File c) \<Rightarrow> True | _ \<Rightarrow> False)"

text \<open>
  The error of the operating system for a path that is not there: \<^verbatim>\<open>ENOTDIR\<close> when one of
  its proper ancestors is a regular file, \<^verbatim>\<open>ENOENT\<close> otherwise.
\<close>

definition missing_error :: "filesystem \<Rightarrow> path \<Rightarrow> exn" where
  "missing_error fs p =
     (if list_ex (\<lambda>k. is_file_node (node_at fs (take k p))) [0..<length p]
      then NotADirectoryError p else FileNotFoundError p)"

text \<open>\<^verbatim>\<open>open(p, "r").read()\<close>.\<close>

definition open_read :: "filesystem \<Rightarrow> path \<Rightarrow> exn + string" where
  "open_read fs p =
     (case node_at fs p of
        Some (File c) \<Rightarrow> Inr c
      | Some Dir \<Rightarrow> Inl (IsADirectoryError p)
      | None \<Rightarrow> Inl (missing_error fs p))"

text \<open>\<^verbatim>\<open>open(p, "w").write(s)\<close>: the file is created or truncated, its directory must exist.\<close>

definition open_write :: "filesystem \<Rightarrow> path \<Rightarrow> string \<Rightarrow> exn + filesystem" where
  "open_write fs p s =
     (case node_at fs p of
        Some Dir \<Rightarrow> Inl (IsADirectoryError p)
      | Some (File c) \<Rightarrow> Inr (AList.update p (File s) fs)
      | None \<Rightarrow>
          if node_at fs (butlast p) = Some Dir then Inr (AList.update p (File s) fs)
          else Inl (missing_error fs p))"

text \<open>\<^verbatim>\<open>os.mkdir(p)\<close>.\<close>

definition mkdir :: "filesystem \<Rightarrow> path \<Rightarrow> exn + filesystem" where
  "mkdir fs p =
     (if exists fs p then Inl (FileExistsError p)
      else if node_at fs (butlast p) = Some Dir then Inr (AList.update p Dir fs)
      else Inl (missing_error fs p))"

text \<open>
  \<^verbatim>\<open>os.makedirs(p)\<close>: the missing parent is made first (a \<^verbatim>\<open>FileExistsError\<close> from that call
  is swallowed), then the directory itself.
\<close>

function makedirs :: "filesystem \<Rightarrow> path \<Rightarrow> exn + filesystem" where
  "makedirs fs p =
     (if p \<noteq> [] \<and> \<not> exists fs (butlast p) then
        (case makedirs fs (butlast p) of
           Inr fs' \<Rightarrow> mkdir fs' p
         | Inl (FileExistsError q) \<Rightarrow> mkdir fs p
         | Inl e \<Rightarrow> Inl e)
      else mkdir fs p)"
  by pat_completeness auto
termination
  by (relation "measure (\<lambda>(fs, p). length p)") auto

declare makedirs.simps [simp del]

text \<open>The names of the entries of a directory, in the order of the file system.\<close>

definition children :: "filesystem \<Rightarrow> path \<Rightarrow> string list" where
  "children fs d = map last (filter (\<lambda>p. p \<noteq> [] \<and> butlast p = d) (map fst fs))"

text \<open>\<^verbatim>\<open>Path.iterdir()\<close>.\<close>

definition iterdir :: "filesystem \<Rightarrow> path \<Rightarrow> exn + string list" where
  "iterdir fs d =
     (case node_at fs d of
        Some Dir \<Rightarrow> Inr (children fs d)
      | Some (File c) \<Rightarrow> Inl (NotADirectoryError d)
      | None \<Rightarrow> Inl (missing_error fs d))"

text \<open>
  \<^verbatim>\<open>PurePath.suffix\<close> of a file name, as \<^verbatim>\<open>pathlib\<close> computes it: the part from the last dot
  on, unless that dot is the first or the last character.
\<close>

definition rfind :: "string \<Rightarrow> char \<Rightarrow> int" where
  "rfind s c =
     (if c \<in> set s then int (length s) - 1 - int (length (takeWhile (\<lambda>x. x \<noteq> c) (rev s)))
      else - 1)"

definition suffix :: "string \<Rightarrow> string" where
  "suffix name =
     (let i = rfind name (CHR ''.'')
      in if 0 < i \<and> i < int (length name) - 1 then drop (nat i) name else [])"

subsection \<open>Interfaces as the loader returns them\<close>

text \<open>
  \<^verbatim>\<open>json.load\<close> and the class \<^verbatim>\<open>astarte.device.Interface\<close> are libraries outside this
  repository. The generator reads the attributes below from the object the class builds;
  the three predicates are the results of \<^verbatim>\<open>is_type_properties()\<close>, \<^verbatim>\<open>is_server_owned()\<close> and
  \<^verbatim>\<open>is_aggregation_object()\<close>. The two library calls together are a parameter of the model:
  a loader takes the text of a file and returns the interface or the exception raised.
\<close>

record mapping =
  endpoint :: string
  type :: string
  reliability :: int
  explicit_timestamp :: bool
  allow_unset :: bool

record interface =
  name :: string
  version_major :: int
  version_minor :: int
  is_type_properties :: bool
  is_server_owned :: bool
  is_aggregation_object :: bool
  mappings :: "mapping list"

type_synonym loader = "string \<Rightarrow> exn + interface"

subsection \<open>The lookup table and the templates\<close>

definition reliability_lookup :: "int \<rightharpoonup> string" where
  "reliability_lookup = [0 \<mapsto> ''UNRELIABLE'', 1 \<mapsto> ''GUARANTEED'', 2 \<mapsto> ''UNIQUE'']"

text \<open>
  Every template is used through \<^verbatim>\<open>substitute\<close> with all of its placeholders given, so it is
  the function that puts the values, already turned into text by \<^verbatim>\<open>str\<close>, between the fixed
  pieces of text. The arguments follow the order of the keywords at the call.
\<close>

type_synonym "value" = string

definition interface_header_template :: "value \<Rightarrow> value \<Rightarrow> value \<Rightarrow> string" where
  \<open>interface_header_template output_filename output_filename_cap interfaces_declarations =
     ''/**\<newline> * @file '' @ output_filename @ ''.h\<newline>''
     @ '' * @brief Contains automatically generated interfaces.\<newline>''
     @ '' *\<newline>''
     @ '' * @warning Do not modify this file manually.\<newline>''
     @ '' *\<newline>''
     @ '' * @details The generated structures contain all information regarding each interface.\<newline>''
     @ '' * and are automatically generated from the json interfaces definitions.\<newline>''
     @ '' */\<newline>''
     @ ''\<newline>''
     @ ''// NOLINTNEXTLINE This guard is clear enough.\<newline>''
     @ ''#ifndef '' @ output_filename_cap @ ''_H\<newline>''
     @ ''#define '' @ output_filename_cap @ ''_H\<newline>''
     @ ''\<newline>''
     @ ''#include <astarte_device_sdk/interface.h>\<newline>''
     @ ''#include <astarte_device_sdk/mapping.h>\<newline>''
     @ ''\<newline>''
     @ ''// Interface names should resemble as closely as possible their respective .json file names.\<newline>''
     @ ''// NOLINTBEGIN(readability-identifier-naming)\<newline>''
     @ interfaces_declarations @ ''\<newline>''
     @ ''// NOLINTEND(readability-identifier-naming)\<newline>''
     @ ''\<newline>''
     @ ''#endif /* '' @ output_filename_cap @ ''_H */\<newline>''\<close>

definition interface_source_template :: "value \<Rightarrow> value \<Rightarrow> string" where
  \<open>interface_source_template output_filename interfaces_declarations =
     ''/**\<newline> * @file '' @ output_filename @ ''.c\<newline>''
     @ '' * @brief Contains automatically generated interfaces.\<newline>''
     @ '' *\<newline>''
     @ '' * @warning Do not modify this file manually.\<newline>''
     @ '' */\<newline>''
     @ ''\<newline>''
     @ ''#include "'' @ output_filename @ ''.h"\<newline>''
     @ ''\<newline>''
     @ ''// Interface names should resemble as closely as possible their respective .json file names.\<newline>''
     @ ''// NOLINTBEGIN(readability-identifier-naming)\<newline>''
     @ interfaces_declarations @ ''\<newline>''
     @ ''\<newline>''
     @ ''// NOLINTEND(readability-identifier-naming)\<newline>''\<close>

definition interface_declaration_template :: "value \<Rightarrow> string" where
  "interface_declaration_template interface_name_sc =
     ''extern const astarte_interface_t '' @ interface_name_sc @ '';''"

definition interface_definition_template ::
  "value \<Rightarrow> value \<Rightarrow> value \<Rightarrow> value \<Rightarrow> value \<Rightarrow> value \<Rightarrow> value \<Rightarrow> value \<Rightarrow> value
   \<Rightarrow> string" where
  \<open>interface_definition_template mappings_number interface_name_sc interface_name
       version_major_text version_minor_text itype ownership aggregation mappings_text =
     ''\<newline>''
     @ ''static const astarte_mapping_t '' @ interface_name_sc @ ''_mappings[''
         @ mappings_number @ ''] = {\<newline>''
     @ mappings_text @ ''\<newline>''
     @ ''};\<newline>''
     @ ''\<newline>''
     @ ''const astarte_interface_t '' @ interface_name_sc @ '' = {\<newline>''
     @ ''    .name = "'' @ interface_name @ ''",\<newline>''
     @ ''    .major_version = '' @ version_major_text @ '',\<newline>''
     @ ''    .minor_version = '' @ version_minor_text @ '',\<newline>''
     @ ''    .type = '' @ itype @ '',\<newline>''
     @ ''    .ownership = '' @ ownership @ '',\<newline>''
     @ ''    .aggregation = '' @ aggregation @ '',\<newline>''
     @ ''    .mappings = '' @ interface_name_sc @ ''_mappings,\<newline>''
     @ ''    .mappings_length = '' @ mappings_number @ ''U,\<newline>''
     @ ''};''\<close>

definition mapping_definition_template ::
  "value \<Rightarrow> value \<Rightarrow> value \<Rightarrow> value \<Rightarrow> value \<Rightarrow> string" where
  \<open>mapping_definition_template endpoint_text type_text reliability_text
       explicit_timestamp_text allow_unset_text =
     ''\<newline>''
     @ ''    {\<newline>''
     @ ''        .endpoint = "'' @ endpoint_text @ ''",\<newline>''
     @ ''        .type = '' @ type_text @ '',\<newline>''
     @ ''        .reliability = '' @ reliability_text @ '',\<newline>''
     @ ''        .explicit_timestamp = '' @ explicit_timestamp_text @ '',\<newline>''
     @ ''        .allow_unset = '' @ allow_unset_text @ '',\<newline>''
     @ ''    },''\<close>

subsection \<open>\<^verbatim>\<open>generate_interfaces\<close>\<close>

text \<open>
  The body of the inner loop: one mapping filled into its template. The subscript
  \<^verbatim>\<open>reliability_lookup[mapping.reliability]\<close> raises \<^verbatim>\<open>KeyError\<close> for a key that is not in
  the table.
\<close>

definition mapping_struct :: "mapping \<Rightarrow> exn + string" where
  "mapping_struct m =
     (case reliability_lookup (reliability m) of
        None \<Rightarrow> Inl (KeyError (reliability m))
      | Some r \<Rightarrow>
          Inr (mapping_definition_template
                 (endpoint m)
                 (''ASTARTE_MAPPING_TYPE_'' @ upper (type m))
                 (''ASTARTE_MAPPING_RELIABILITY_'' @ r)
                 (if explicit_timestamp m then ''true'' else ''false'')
                 (if allow_unset m then ''true'' else ''false'')))"

text \<open>The inner loop appends each text to \<^verbatim>\<open>mappings_struct\<close> and stops at the first exception.\<close>

fun mappings_loop :: "mapping list \<Rightarrow> string list \<Rightarrow> exn + string list" where
  "mappings_loop [] mappings_struct = Inr mappings_struct"
| "mappings_loop (m # ms) mappings_struct =
     (case mapping_struct m of
        Inl e \<Rightarrow> Inl e
      | Inr s \<Rightarrow> mappings_loop ms (mappings_struct @ [s]))"

text \<open>The symbol used for an interface: \<^verbatim>\<open>interface.name.replace(".", "_").replace("-", "_")\<close>.\<close>

definition interface_name_sc :: "string \<Rightarrow> string" where
  "interface_name_sc n = replace (CHR ''-'') (CHR ''_'') (replace (CHR ''.'') (CHR ''_'') n)"

definition interface_struct :: "interface \<Rightarrow> string list \<Rightarrow> string" where
  "interface_struct i mappings_struct =
     interface_definition_template
       (str_int (int (length (mappings i))))
       (interface_name_sc (name i))
       (name i)
       (str_int (version_major i))
       (str_int (version_minor i))
       (''ASTARTE_INTERFACE_''
          @ (if is_type_properties i then ''TYPE_PROPERTIES'' else ''TYPE_DATASTREAM''))
       (''ASTARTE_INTERFACE_''
          @ (if is_server_owned i then ''OWNERSHIP_SERVER'' else ''OWNERSHIP_DEVICE''))
       (''ASTARTE_INTERFACE_''
          @ (if is_aggregation_object i then ''AGGREGATION_OBJECT''
             else ''AGGREGATION_INDIVIDUAL''))
       (concat mappings_struct)"

definition interface_declaration :: "interface \<Rightarrow> string" where
  "interface_declaration i = interface_declaration_template (interface_name_sc (name i))"

text \<open>
  The body of the outer loop for one entry of the directory: open and load the file, run
  the inner loop, fill in the definition and the declaration. The result is the pair that
  the loop appends to \<^verbatim>\<open>interfaces_declarations\<close> and \<^verbatim>\<open>interfaces_structs\<close>.
\<close>

definition process_file :: "loader \<Rightarrow> filesystem \<Rightarrow> path \<Rightarrow> exn + (string \<times> string)" where
  "process_file load fs interface_file =
     (case open_read fs interface_file of
        Inl e \<Rightarrow> Inl e
      | Inr text \<Rightarrow>
          (case load text of
             Inl e \<Rightarrow> Inl e
           | Inr i \<Rightarrow>
               (case mappings_loop (mappings i) [] of
                  Inl e \<Rightarrow> Inl e
                | Inr mappings_struct \<Rightarrow>
                    Inr (interface_declaration i, interface_struct i mappings_struct))))"

fun interfaces_loop ::
  "loader \<Rightarrow> filesystem \<Rightarrow> path \<Rightarrow> string list \<Rightarrow> string list \<Rightarrow> string list
   \<Rightarrow> exn + (string list \<times> string list)" where
  "interfaces_loop load fs interfaces_dir [] interfaces_declarations interfaces_structs =
     Inr (interfaces_declarations, interfaces_structs)"
| "interfaces_loop load fs interfaces_dir (f # files) interfaces_declarations interfaces_structs =
     (case process_file load fs (interfaces_dir @ [f]) of
        Inl e \<Rightarrow> Inl e
      | Inr (d, s) \<Rightarrow>
          interfaces_loop load fs interfaces_dir files
            (interfaces_declarations @ [d]) (interfaces_structs @ [s]))"

text \<open>
  The entries the outer loop visits:
  \<^verbatim>\<open>sorted([i for i in interfaces_dir.iterdir() if i.suffix == ".json"])\<close>. The paths share
  their directory, so their order is the order of the names, character by character.
\<close>

definition interface_files :: "filesystem \<Rightarrow> path \<Rightarrow> exn + string list" where
  "interface_files fs interfaces_dir =
     (case iterdir fs interfaces_dir of
        Inl e \<Rightarrow> Inl e
      | Inr names \<Rightarrow> Inr (sort (filter (\<lambda>n. suffix n = ''.json'') names)))"

text \<open>The two texts, \<^verbatim>\<open>interfaces_header\<close> and \<^verbatim>\<open>interfaces_source\<close>, that the run renders.\<close>

definition render ::
  "loader \<Rightarrow> filesystem \<Rightarrow> path \<Rightarrow> string \<Rightarrow> exn + (string \<times> string)" where
  "render load fs interfaces_dir output_fn =
     (case interface_files fs interfaces_dir of
        Inl e \<Rightarrow> Inl e
      | Inr files \<Rightarrow>
          (case interfaces_loop load fs interfaces_dir files [] [] of
             Inl e \<Rightarrow> Inl e
           | Inr (interfaces_declarations, interfaces_structs) \<Rightarrow>
               Inr (interface_header_template output_fn (upper output_fn)
                      (str_join ''\<newline>'' interfaces_declarations),
                    interface_source_template output_fn
                      (str_join ''\<newline>'' interfaces_structs))))"

text \<open>
  How a run ends: it returns, it calls \<^verbatim>\<open>sys.exit\<close> after printing a message, or an exception
  leaves the function. The interpreter turns an uncaught exception into a traceback that
  shows the exception and exit status 1.
\<close>

datatype status = Success | SysExit int string | Uncaught exn

fun exit_code :: "status \<Rightarrow> int" where
  "exit_code Success = 0"
| "exit_code (SysExit n msg) = n"
| "exit_code (Uncaught e) = 1"

definition generated_header :: "path \<Rightarrow> string \<Rightarrow> path" where
  "generated_header output_dir output_fn = output_dir @ [output_fn @ ''.h'']"

definition generated_source :: "path \<Rightarrow> string \<Rightarrow> path" where
  "generated_source output_dir output_fn = output_dir @ [output_fn @ ''.c'']"

text \<open>The branch \<^verbatim>\<open>if check:\<close> compares the files on disk with the two texts.\<close>

definition check_outputs ::
  "filesystem \<Rightarrow> path \<Rightarrow> string \<Rightarrow> string \<Rightarrow> string \<Rightarrow> status" where
  "check_outputs fs output_dir output_fn interfaces_header interfaces_source =
     (if \<not> exists fs output_dir then
        SysExit 1 ''Check failed: non existant output directory''
      else
        (case open_read fs (generated_header output_dir output_fn) of
           Inl e \<Rightarrow> Uncaught e
         | Inr h \<Rightarrow>
             if h \<noteq> interfaces_header then
               SysExit 1 ''Check failed: header is not up to date''
             else
               (case open_read fs (generated_source output_dir output_fn) of
                  Inl e \<Rightarrow> Uncaught e
                | Inr s \<Rightarrow>
                    if s \<noteq> interfaces_source then
                      SysExit 1 ''Check failed: source is not up to date''
                    else Success)))"

text \<open>The branch \<^verbatim>\<open>else:\<close> makes the directory when it is missing and writes the two files.\<close>

definition write_outputs ::
  "filesystem \<Rightarrow> path \<Rightarrow> string \<Rightarrow> string \<Rightarrow> string \<Rightarrow> status \<times> filesystem" where
  "write_outputs fs output_dir output_fn interfaces_header interfaces_source =
     (case (if \<not> exists fs output_dir then makedirs fs output_dir else Inr fs) of
        Inl e \<Rightarrow> (Uncaught e, fs)
      | Inr fs1 \<Rightarrow>
          (case open_write fs1 (generated_header output_dir output_fn) interfaces_header of
             Inl e \<Rightarrow> (Uncaught e, fs1)
           | Inr fs2 \<Rightarrow>
               (case open_write fs2 (generated_source output_dir output_fn) interfaces_source of
                  Inl e \<Rightarrow> (Uncaught e, fs2)
                | Inr fs3 \<Rightarrow> (Success, fs3))))"

text \<open>The whole function: how the run ends, and the file system after it.\<close>

definition generate_interfaces ::
  "loader \<Rightarrow> filesystem \<Rightarrow> path \<Rightarrow> path \<Rightarrow> string \<Rightarrow> bool \<Rightarrow> status \<times> filesystem" where
  "generate_interfaces load fs interfaces_dir output_dir output_fn check =
     (case render load fs interfaces_dir output_fn of
        Inl e \<Rightarrow> (Uncaught e, fs)
      | Inr (interfaces_header, interfaces_source) \<Rightarrow>
          if check then
            (check_outputs fs output_dir output_fn interfaces_header interfaces_source, fs)
          else write_outputs fs output_dir output_fn interfaces_header interfaces_source)"

subsection \<open>Vocabulary of the specification\<close>

text \<open>The identifier alphabet: letters, digits and the underscore.\<close>

definition is_ident_char :: "char \<Rightarrow> bool" where
  "is_ident_char c =
     (c \<in> set (''abcdefghijklmnopqrstuvwxyz'' @ ''ABCDEFGHIJKLMNOPQRSTUVWXYZ''
                @ ''0123456789'' @ ''_''))"


text \<open>
  The output directory lies below the input directory, and its component right below the
  input directory has the suffix \<^verbatim>\<open>.json\<close>.
\<close>

definition json_entry_on_the_way :: "path \<Rightarrow> path \<Rightarrow> bool" where
  "json_entry_on_the_way interfaces_dir output_dir =
     (length interfaces_dir < length output_dir
      \<and> take (length interfaces_dir) output_dir = interfaces_dir
      \<and> suffix (output_dir ! length interfaces_dir) = ''.json'')"

subsection \<open>Example inputs\<close>

text \<open>
  The mapping and the interface of the scenario in the specification: a datastream owned by
  the device with individual aggregation, version 0.1, and one mapping \<^verbatim>\<open>/temp\<close> of type
  double with reliability 1.
\<close>

definition temp_mapping :: mapping where
  "temp_mapping =
     \<lparr>endpoint = ''/temp'', type = ''double'', reliability = 1,
      explicit_timestamp = True, allow_unset = False\<rparr>"

definition example_interface :: "string \<Rightarrow> mapping list \<Rightarrow> interface" where
  "example_interface n ms =
     \<lparr>name = n, version_major = 0, version_minor = 1, is_type_properties = False,
      is_server_owned = False, is_aggregation_object = False, mappings = ms\<rparr>"

text \<open>
  An example loader. It knows the documents below by their text and raises for any other
  text, as the library does for a file it cannot decode.
\<close>

definition example_documents :: "(string \<times> interface) list" where
  "example_documents =
     [(''temperature'', example_interface ''org.Temperature'' [temp_mapping]),
      (''hyphen'', example_interface ''org.a-b'' [temp_mapping]),
      (''underscore'', example_interface ''org.a_b'' [temp_mapping]),
      (''unknown type'', example_interface ''org.Foo'' [temp_mapping\<lparr>type := ''foo''\<rparr>]),
      (''reliability 3'', example_interface ''org.Bar'' [temp_mapping\<lparr>reliability := 3\<rparr>]),
      (''no mappings'', example_interface ''org.Empty'' [])]"

definition example_load :: loader where
  "example_load text =
     (case map_of example_documents text of
        Some i \<Rightarrow> Inr i
      | None \<Rightarrow> Inl (LoaderError text))"

text \<open>An input directory \<^verbatim>\<open>/in\<close> holding the given files, in the given order.\<close>

definition example_fs :: "(string \<times> string) list \<Rightarrow> filesystem" where
  "example_fs docs = ([''in''], Dir) # map (\<lambda>(n, text). ([''in'', n], File text)) docs"




section \<open>The loops\<close>

text \<open>
  Both loops append to lists that start empty. Each one returns exactly when every pass of
  its body returns, and then it holds the results of the passes in the order of the passes.
\<close>

lemma mappings_loop_acc:
  "mappings_loop ms acc = (case mappings_loop ms [] of Inl e \<Rightarrow> Inl e | Inr r \<Rightarrow> Inr (acc @ r))"
proof (induction ms arbitrary: acc)
  case Nil
  show ?case by simp
next
  case (Cons m ms)
  show ?case
  proof (cases "mapping_struct m")
    case (Inl e)
    then show ?thesis by simp
  next
    case (Inr s)
    have a: "mappings_loop (m # ms) acc = mappings_loop ms (acc @ [s])" for acc
      using Inr by simp
    show ?thesis
      unfolding a using Cons.IH [of "acc @ [s]"] Cons.IH [of "[] @ [s]"]
      by (cases "mappings_loop ms []") simp_all
  qed
qed

lemma mappings_loop_Cons:
  "mappings_loop (m # ms) [] =
     (case mapping_struct m of
        Inl e \<Rightarrow> Inl e
      | Inr s \<Rightarrow> (case mappings_loop ms [] of Inl e \<Rightarrow> Inl e | Inr r \<Rightarrow> Inr (s # r)))"
  using mappings_loop_acc [of ms "[s]" for s]
  by (cases "mapping_struct m"; cases "mappings_loop ms []") simp_all

lemma mappings_loop_Inr_iff:
  "mappings_loop ms [] = Inr r \<longleftrightarrow> list_all2 (\<lambda>m t. mapping_struct m = Inr t) ms r"
proof (induction ms arbitrary: r)
  case Nil
  show ?case by auto
next
  case (Cons m ms)
  show ?case
  proof (cases "mapping_struct m")
    case (Inl e)
    then show ?thesis by (simp add: mappings_loop_Cons list_all2_Cons1 del: mappings_loop.simps(2))
  next
    case s: (Inr s)
    show ?thesis
    proof (cases "mappings_loop ms []")
      case (Inl e)
      have "\<not> list_all2 (\<lambda>m t. mapping_struct m = Inr t) ms r'" for r'
        using Cons.IH [of r'] Inl by simp
      then show ?thesis
        using s Inl by (simp add: mappings_loop_Cons list_all2_Cons1 del: mappings_loop.simps(2))
    next
      case (Inr r0)
      have "list_all2 (\<lambda>m t. mapping_struct m = Inr t) ms r' \<longleftrightarrow> r' = r0" for r'
        using Cons.IH [of r'] Inr by auto
      then show ?thesis
        using s Inr by (auto simp add: mappings_loop_Cons list_all2_Cons1 simp del: mappings_loop.simps(2))
    qed
  qed
qed

lemma interfaces_loop_acc:
  "interfaces_loop load fs d files ds ss =
     (case interfaces_loop load fs d files [] [] of
        Inl e \<Rightarrow> Inl e
      | Inr (ds', ss') \<Rightarrow> Inr (ds @ ds', ss @ ss'))"
proof (induction files arbitrary: ds ss)
  case Nil
  show ?case by simp
next
  case (Cons f files)
  show ?case
  proof (cases "process_file load fs (d @ [f])")
    case (Inl e)
    then show ?thesis by simp
  next
    case (Inr r)
    obtain dc st where r: "r = (dc, st)" by (cases r)
    have a: "interfaces_loop load fs d (f # files) ds ss =
        interfaces_loop load fs d files (ds @ [dc]) (ss @ [st])" for ds ss
      using Inr r by simp
    show ?thesis
      unfolding a
      using Cons.IH [of "ds @ [dc]" "ss @ [st]"] Cons.IH [of "[] @ [dc]" "[] @ [st]"]
      by (cases "interfaces_loop load fs d files [] []") (simp_all split: prod.splits)
  qed
qed

lemma interfaces_loop_Cons:
  "interfaces_loop load fs d (f # files) [] [] =
     (case process_file load fs (d @ [f]) of
        Inl e \<Rightarrow> Inl e
      | Inr r \<Rightarrow>
          (case interfaces_loop load fs d files [] [] of
             Inl e \<Rightarrow> Inl e
           | Inr (ds, ss) \<Rightarrow> Inr (fst r # ds, snd r # ss)))"
  using interfaces_loop_acc [of load fs d files "[dc]" "[st]" for dc st]
  by (cases "process_file load fs (d @ [f])"; cases "interfaces_loop load fs d files [] []")
    (simp_all split: prod.splits)

lemma interfaces_loop_Inr_iff:
  "interfaces_loop load fs d files [] [] = Inr (ds, ss) \<longleftrightarrow>
     (\<exists>rs. list_all2 (\<lambda>f r. process_file load fs (d @ [f]) = Inr r) files rs
           \<and> ds = map fst rs \<and> ss = map snd rs)"
proof (induction files arbitrary: ds ss)
  case Nil
  show ?case by auto
next
  case (Cons f files)
  note b = interfaces_loop_Cons [of load fs d f files]
  show ?case
  proof (cases "process_file load fs (d @ [f])")
    case (Inl e)
    then show ?thesis unfolding b by (simp add: list_all2_Cons1)
  next
    case (Inr r)
    show ?thesis
    proof
      assume "interfaces_loop load fs d (f # files) [] [] = Inr (ds, ss)"
      then obtain ds' ss' where
        t: "interfaces_loop load fs d files [] [] = Inr (ds', ss')"
        and e: "ds = fst r # ds'" "ss = snd r # ss'"
        unfolding b using Inr by (auto split: sum.splits prod.splits)
      from t Cons.IH obtain rs where
        "list_all2 (\<lambda>f r. process_file load fs (d @ [f]) = Inr r) files rs"
        "ds' = map fst rs" "ss' = map snd rs"
        by blast
      then have "list_all2 (\<lambda>f r. process_file load fs (d @ [f]) = Inr r) (f # files) (r # rs)
          \<and> ds = map fst (r # rs) \<and> ss = map snd (r # rs)"
        using Inr e by simp
      then show "\<exists>rs. list_all2 (\<lambda>f r. process_file load fs (d @ [f]) = Inr r) (f # files) rs
          \<and> ds = map fst rs \<and> ss = map snd rs"
        by blast
    next
      assume "\<exists>rs. list_all2 (\<lambda>f r. process_file load fs (d @ [f]) = Inr r) (f # files) rs
          \<and> ds = map fst rs \<and> ss = map snd rs"
      then obtain rs where
        l: "list_all2 (\<lambda>f r. process_file load fs (d @ [f]) = Inr r) (f # files) rs"
        and e: "ds = map fst rs" "ss = map snd rs"
        by blast
      from l obtain r' rs' where rs: "rs = r' # rs'"
        and h: "process_file load fs (d @ [f]) = Inr r'"
        and t: "list_all2 (\<lambda>f r. process_file load fs (d @ [f]) = Inr r) files rs'"
        by (auto simp: list_all2_Cons1)
      from h Inr have r': "r' = r" by simp
      from t Cons.IH have "interfaces_loop load fs d files [] [] = Inr (map fst rs', map snd rs')"
        by blast
      then show "interfaces_loop load fs d (f # files) [] [] = Inr (ds, ss)"
        unfolding b using Inr e rs r' by simp
    qed
  qed
qed

lemma interfaces_loop_fails:
  assumes "f \<in> set files" and "process_file load fs (d @ [f]) = Inl e"
  shows "\<exists>e'. interfaces_loop load fs d files [] [] = Inl e'"
proof (cases "interfaces_loop load fs d files [] []")
  case (Inl e')
  then show ?thesis by blast
next
  case (Inr p)
  obtain ds ss where "p = (ds, ss)" by (cases p)
  with Inr interfaces_loop_Inr_iff [of load fs d files ds ss] obtain rs where
    l: "list_all2 (\<lambda>f r. process_file load fs (d @ [f]) = Inr r) files rs"
    by blast
  from assms(1) obtain k where k: "k < length files" "files ! k = f"
    by (auto simp: in_set_conv_nth)
  from list_all2_nthD [OF l k(1)] k(2) have "process_file load fs (d @ [f]) = Inr (rs ! k)"
    by simp
  with assms(2) show ?thesis by simp
qed

section \<open>Failure of a run\<close>

text \<open>
  An exception raised in a pass of a loop leaves \<^verbatim>\<open>generate_interfaces\<close> before the first
  write: the run ends with that exception and the file system is the one it started with.
\<close>

lemma mappings_loop_fails:
  assumes "m \<in> set ms" and "mapping_struct m = Inl e"
  shows "\<exists>e'. mappings_loop ms [] = Inl e'"
proof (cases "mappings_loop ms []")
  case (Inl e')
  then show ?thesis by blast
next
  case (Inr r)
  then have l: "list_all2 (\<lambda>m t. mapping_struct m = Inr t) ms r"
    by (simp add: mappings_loop_Inr_iff)
  from assms(1) obtain k where k: "k < length ms" "ms ! k = m"
    by (auto simp: in_set_conv_nth)
  from list_all2_nthD [OF l k(1)] k(2) have "mapping_struct m = Inr (r ! k)"
    by simp
  with assms(2) show ?thesis by simp
qed

lemma render_fails:
  assumes "interface_files fs d = Inr files" and "f \<in> set files"
    and "process_file load fs (d @ [f]) = Inl e"
  shows "\<exists>e'. render load fs d fn = Inl e'"
proof -
  from interfaces_loop_fails [OF assms(2,3)] obtain e' where
    "interfaces_loop load fs d files [] [] = Inl e'" by blast
  with assms(1) show ?thesis by (simp add: render_def)
qed

lemma generate_interfaces_render_fails:
  assumes "render load fs d fn = Inl e"
  shows "generate_interfaces load fs d odir fn check = (Uncaught e, fs)"
  using assms by (simp add: generate_interfaces_def)

lemma reliability_lookup_cases:
  "reliability_lookup r =
     (if r = 0 then Some ''UNRELIABLE'' else if r = 1 then Some ''GUARANTEED''
      else if r = 2 then Some ''UNIQUE'' else None)"
  by (simp add: reliability_lookup_def)

section \<open>The identifier of an interface\<close>

text \<open>
  Claim C4, as amended. The symbol of an interface is its name with every dot and every
  hyphen replaced by an underscore and every other character left as it is. So the symbol
  consists of letters, digits and underscores exactly when the name consists of letters,
  digits, underscores, dots and hyphens.
\<close>

theorem interface_name_sc_alphabet:
  "interface_name_sc n = map (\<lambda>c. if c = CHR ''.'' \<or> c = CHR ''-'' then CHR ''_'' else c) n
   \<and> (list_all is_ident_char (interface_name_sc n)
        \<longleftrightarrow> list_all (\<lambda>c. is_ident_char c \<or> c = CHR ''.'' \<or> c = CHR ''-'') n)"
proof -
  have a: "interface_name_sc n = map (\<lambda>c. if c = CHR ''.'' \<or> c = CHR ''-'' then CHR ''_'' else c) n"
    by (simp add: interface_name_sc_def replace_def)
  have b: "is_ident_char (if c = CHR ''.'' \<or> c = CHR ''-'' then CHR ''_'' else c)
      \<longleftrightarrow> is_ident_char c \<or> c = CHR ''.'' \<or> c = CHR ''-''" for c
    by (auto simp: is_ident_char_def)
  have "list_all is_ident_char
        (map (\<lambda>c. if c = CHR ''.'' \<or> c = CHR ''-'' then CHR ''_'' else c) n)
      \<longleftrightarrow> list_all (\<lambda>c. is_ident_char c \<or> c = CHR ''.'' \<or> c = CHR ''-'') n"
    by (induction n) (simp_all add: b del: disj_not1)
  with a show ?thesis by simp
qed

text \<open>
  The name \<^verbatim>\<open>org.astarte-platform.Sensor_1\<close> is in that alphabet and becomes
  \<^verbatim>\<open>org_astarte_platform_Sensor_1\<close>. The name \<^verbatim>\<open>org.a b\<close> keeps its blank: a character
  other than the dot and the hyphen is not replaced.
\<close>

theorem interface_name_sc_alphabet_witness:
  "interface_name_sc ''org.astarte-platform.Sensor_1'' = ''org_astarte_platform_Sensor_1''
   \<and> list_all is_ident_char (interface_name_sc ''org.astarte-platform.Sensor_1'')
   \<and> list_all (\<lambda>c. is_ident_char c \<or> c = CHR ''.'' \<or> c = CHR ''-'') ''org.astarte-platform.Sensor_1''"
  using interface_name_sc_alphabet [of "''org.astarte-platform.Sensor_1''"]
  by (simp add: is_ident_char_def)

theorem interface_name_sc_counterexample:
  "interface_name_sc ''org.a b'' = ''org_a b'' \<and> \<not> list_all is_ident_char (interface_name_sc ''org.a b'')"
  by (simp add: interface_name_sc_def replace_def is_ident_char_def)

section \<open>Reliability\<close>

text \<open>
  Claim C9. The reliability 0, 1 or 2 of a mapping is rendered as
  \<^verbatim>\<open>ASTARTE_MAPPING_RELIABILITY_UNRELIABLE\<close>, \<^verbatim>\<open>_GUARANTEED\<close> or \<^verbatim>\<open>_UNIQUE\<close>. Any other
  integer is not a key of the table: the subscript raises \<^verbatim>\<open>KeyError\<close>, no value is put in
  its place, and a run that meets such a mapping in a file it visits ends with an uncaught
  exception, exit status 1 and the file system untouched.
\<close>

theorem reliability_constants:
  "mapping_struct m =
     (if reliability m = 0 then
        Inr (mapping_definition_template (endpoint m)
               (''ASTARTE_MAPPING_TYPE_'' @ upper (type m))
               ''ASTARTE_MAPPING_RELIABILITY_UNRELIABLE''
               (if explicit_timestamp m then ''true'' else ''false'')
               (if allow_unset m then ''true'' else ''false''))
      else if reliability m = 1 then
        Inr (mapping_definition_template (endpoint m)
               (''ASTARTE_MAPPING_TYPE_'' @ upper (type m))
               ''ASTARTE_MAPPING_RELIABILITY_GUARANTEED''
               (if explicit_timestamp m then ''true'' else ''false'')
               (if allow_unset m then ''true'' else ''false''))
      else if reliability m = 2 then
        Inr (mapping_definition_template (endpoint m)
               (''ASTARTE_MAPPING_TYPE_'' @ upper (type m))
               ''ASTARTE_MAPPING_RELIABILITY_UNIQUE''
               (if explicit_timestamp m then ''true'' else ''false'')
               (if allow_unset m then ''true'' else ''false''))
      else Inl (KeyError (reliability m)))
   \<and> (interface_files fs d = Inr files \<and> f \<in> set files
        \<and> open_read fs (d @ [f]) = Inr text \<and> load text = Inr i
        \<and> m \<in> set (mappings i) \<and> reliability m \<notin> {0, 1, 2}
      \<longrightarrow> (\<exists>e. generate_interfaces load fs d output_dir output_fn check = (Uncaught e, fs))
          \<and> exit_code (fst (generate_interfaces load fs d output_dir output_fn check)) = 1)"
proof (intro conjI impI)
  show "mapping_struct m =
     (if reliability m = 0 then
        Inr (mapping_definition_template (endpoint m)
               (''ASTARTE_MAPPING_TYPE_'' @ upper (type m))
               ''ASTARTE_MAPPING_RELIABILITY_UNRELIABLE''
               (if explicit_timestamp m then ''true'' else ''false'')
               (if allow_unset m then ''true'' else ''false''))
      else if reliability m = 1 then
        Inr (mapping_definition_template (endpoint m)
               (''ASTARTE_MAPPING_TYPE_'' @ upper (type m))
               ''ASTARTE_MAPPING_RELIABILITY_GUARANTEED''
               (if explicit_timestamp m then ''true'' else ''false'')
               (if allow_unset m then ''true'' else ''false''))
      else if reliability m = 2 then
        Inr (mapping_definition_template (endpoint m)
               (''ASTARTE_MAPPING_TYPE_'' @ upper (type m))
               ''ASTARTE_MAPPING_RELIABILITY_UNIQUE''
               (if explicit_timestamp m then ''true'' else ''false'')
               (if allow_unset m then ''true'' else ''false''))
      else Inl (KeyError (reliability m)))"
    unfolding mapping_struct_def reliability_lookup_cases by simp
next
  assume h: "interface_files fs d = Inr files \<and> f \<in> set files
        \<and> open_read fs (d @ [f]) = Inr text \<and> load text = Inr i
        \<and> m \<in> set (mappings i) \<and> reliability m \<notin> {0, 1, 2}"
  then have "mapping_struct m = Inl (KeyError (reliability m))"
    unfolding mapping_struct_def reliability_lookup_cases by simp
  with h obtain e1 where "mappings_loop (mappings i) [] = Inl e1"
    using mappings_loop_fails by blast
  with h have "process_file load fs (d @ [f]) = Inl e1"
    by (simp add: process_file_def)
  with h obtain e where e: "render load fs d output_fn = Inl e"
    using render_fails by blast
  have g: "generate_interfaces load fs d output_dir output_fn check = (Uncaught e, fs)"
    by (rule generate_interfaces_render_fails [OF e])
  then show "\<exists>e. generate_interfaces load fs d output_dir output_fn check = (Uncaught e, fs)"
    by blast
  from g show "exit_code (fst (generate_interfaces load fs d output_dir output_fn check)) = 1"
    by simp
qed

text \<open>
  The mapping of the scenario has reliability 1; with reliability 3 it raises, and so does
  the run over a directory that holds it.
\<close>

lemma example_bad_reliability:
  "interface_files (example_fs [(''a.json'', ''reliability 3'')]) [''in''] = Inr [''a.json'']
   \<and> ''a.json'' \<in> set [''a.json'']
   \<and> open_read (example_fs [(''a.json'', ''reliability 3'')]) ([''in''] @ [''a.json'']) = Inr ''reliability 3''
   \<and> example_load ''reliability 3'' = Inr (example_interface ''org.Bar'' [temp_mapping\<lparr>reliability := 3\<rparr>])
   \<and> temp_mapping\<lparr>reliability := 3\<rparr> \<in> set (mappings (example_interface ''org.Bar'' [temp_mapping\<lparr>reliability := 3\<rparr>]))
   \<and> reliability (temp_mapping\<lparr>reliability := 3\<rparr>) \<notin> {0, 1, 2}"
  by code_simp

theorem reliability_constants_witness:
  "mapping_struct temp_mapping =
     Inr (mapping_definition_template ''/temp'' ''ASTARTE_MAPPING_TYPE_DOUBLE''
            ''ASTARTE_MAPPING_RELIABILITY_GUARANTEED'' ''true'' ''false'')
   \<and> mapping_struct (temp_mapping\<lparr>reliability := 3\<rparr>) = Inl (KeyError 3)
   \<and> (\<exists>e. generate_interfaces example_load (example_fs [(''a.json'', ''reliability 3'')])
            [''in''] [''out''] ''generated_interfaces'' False
          = (Uncaught e, example_fs [(''a.json'', ''reliability 3'')]))"
proof -
  have u: "upper ''double'' = ''DOUBLE''" by code_simp
  have a: "mapping_struct temp_mapping =
     Inr (mapping_definition_template ''/temp'' ''ASTARTE_MAPPING_TYPE_DOUBLE''
            ''ASTARTE_MAPPING_RELIABILITY_GUARANTEED'' ''true'' ''false'')"
    using reliability_constants [of temp_mapping] by (simp add: temp_mapping_def u)
  have b: "mapping_struct (temp_mapping\<lparr>reliability := 3\<rparr>) = Inl (KeyError 3)"
    using reliability_constants [of "temp_mapping\<lparr>reliability := 3\<rparr>"] by simp
  have c: "\<exists>e. generate_interfaces example_load (example_fs [(''a.json'', ''reliability 3'')])
            [''in''] [''out''] ''generated_interfaces'' False
          = (Uncaught e, example_fs [(''a.json'', ''reliability 3'')])"
    using reliability_constants [of "temp_mapping\<lparr>reliability := 3\<rparr>"
        "example_fs [(''a.json'', ''reliability 3'')]" "[''in'']" "[''a.json'']" "''a.json''"
        "''reliability 3''" example_load
        "example_interface ''org.Bar'' [temp_mapping\<lparr>reliability := 3\<rparr>]"
        "[''out'']" "''generated_interfaces''" False]
      example_bad_reliability
    by blast
  from a b c show ?thesis by blast
qed

section \<open>A malformed file\<close>

text \<open>
  Claim C5. When the loader raises for a file that the run visits, whatever the place of
  the file among the others, the run ends with an uncaught exception: the exit status is 1
  and the file system is the one the run started with, so neither artifact is written, in
  part or in whole.
\<close>

theorem malformed_file_no_output:
  assumes "interface_files fs d = Inr files" and "f \<in> set files"
    and "open_read fs (d @ [f]) = Inr text" and "load text = Inl e0"
  shows "(\<exists>e. generate_interfaces load fs d output_dir output_fn check = (Uncaught e, fs))
    \<and> exit_code (fst (generate_interfaces load fs d output_dir output_fn check)) = 1
    \<and> snd (generate_interfaces load fs d output_dir output_fn check) = fs"
proof -
  from assms(3,4) have "process_file load fs (d @ [f]) = Inl e0"
    by (simp add: process_file_def)
  with assms(1,2) obtain e where "render load fs d output_fn = Inl e"
    using render_fails by blast
  then have "generate_interfaces load fs d output_dir output_fn check = (Uncaught e, fs)"
    by (rule generate_interfaces_render_fails)
  then show ?thesis by simp
qed

text \<open>A directory with one valid file and one that the loader cannot decode.\<close>

lemma example_malformed:
  "interface_files (example_fs [(''b.json'', ''}{''), (''a.json'', ''temperature'')]) [''in'']
     = Inr [''a.json'', ''b.json'']
   \<and> ''b.json'' \<in> set [''a.json'', ''b.json'']
   \<and> open_read (example_fs [(''b.json'', ''}{''), (''a.json'', ''temperature'')])
        ([''in''] @ [''b.json'']) = Inr ''}{''
   \<and> example_load ''}{'' = Inl (LoaderError ''}{'')"
  by code_simp

theorem malformed_file_no_output_witness:
  "(\<exists>e. generate_interfaces example_load
           (example_fs [(''b.json'', ''}{''), (''a.json'', ''temperature'')])
           [''in''] [''in''] ''generated_interfaces'' False
         = (Uncaught e, example_fs [(''b.json'', ''}{''), (''a.json'', ''temperature'')]))
   \<and> exit_code (fst (generate_interfaces example_load
           (example_fs [(''b.json'', ''}{''), (''a.json'', ''temperature'')])
           [''in''] [''in''] ''generated_interfaces'' False)) = 1"
  using malformed_file_no_output [of "example_fs [(''b.json'', ''}{''), (''a.json'', ''temperature'')]"
      "[''in'']" "[''a.json'', ''b.json'']" "''b.json''" "''}{''" example_load "LoaderError ''}{''"
      "[''in'']" "''generated_interfaces''" False]
    example_malformed
  by blast

section \<open>An interface without mappings\<close>





section \<open>The type of a mapping\<close>





section \<open>Writing the two files\<close>

text \<open>
  The header and the source are two different entries of the output directory. When that
  directory exists and neither entry is a directory, both writes succeed.
\<close>

lemma node_at_update:
  "p \<noteq> [] \<Longrightarrow> node_at (AList.update p n fs) q = (if q = p then Some n else node_at fs q)"
  by (simp add: node_at_def update_conv')

lemma generated_paths [simp]:
  "generated_header output_dir output_fn \<noteq> []"
  "generated_source output_dir output_fn \<noteq> []"
  "butlast (generated_header output_dir output_fn) = output_dir"
  "butlast (generated_source output_dir output_fn) = output_dir"
  "generated_header output_dir output_fn \<noteq> generated_source output_dir output_fn"
  "generated_source output_dir output_fn \<noteq> generated_header output_dir output_fn"
  "generated_header output_dir output_fn \<noteq> output_dir"
  "generated_source output_dir output_fn \<noteq> output_dir"
  "output_dir \<noteq> generated_header output_dir output_fn"
  "output_dir \<noteq> generated_source output_dir output_fn"
  by (simp_all add: generated_header_def generated_source_def)

lemma open_write_Inr:
  "open_write fs p s = Inr fs' \<Longrightarrow> fs' = AList.update p (File s) fs"
  by (auto simp: open_write_def split: option.splits node.splits if_splits)



lemma write_outputs_Success:
  assumes "write_outputs fs output_dir output_fn h s = (Success, fs')"
  shows "node_at fs' (generated_header output_dir output_fn) = Some (File h)
       \<and> node_at fs' (generated_source output_dir output_fn) = Some (File s)"
proof -
  let ?hp = "generated_header output_dir output_fn"
  let ?sp = "generated_source output_dir output_fn"
  from assms obtain fs1 fs2 where
    w1: "open_write fs1 ?hp h = Inr fs2" and w2: "open_write fs2 ?sp s = Inr fs'"
    unfolding write_outputs_def by (auto split: sum.splits if_splits)
  from open_write_Inr [OF w1] open_write_Inr [OF w2]
  have "fs' = AList.update ?sp (File s) (AList.update ?hp (File h) fs1)" by simp
  then show ?thesis by (simp add: node_at_update)
qed


section \<open>Interfaces with the same symbol\<close>





section \<open>Check mode\<close>





section \<open>The order of the output\<close>






section \<open>Determinism\<close>

lemma process_file_cong:
  "open_read fs1 p1 = open_read fs2 p2 \<Longrightarrow> process_file load fs1 p1 = process_file load fs2 p2"
  by (simp add: process_file_def)

lemma interfaces_loop_cong:
  assumes "\<forall>f\<in>set files. open_read fs1 (d1 @ [f]) = open_read fs2 (d2 @ [f])"
  shows "interfaces_loop load fs1 d1 files ds ss = interfaces_loop load fs2 d2 files ds ss"
  using assms
proof (induction files arbitrary: ds ss)
  case Nil
  show ?case by simp
next
  case (Cons f files)
  have p: "process_file load fs1 (d1 @ [f]) = process_file load fs2 (d2 @ [f])"
    using Cons.prems by (intro process_file_cong) simp
  have ih: "interfaces_loop load fs1 d1 files ds' ss'
      = interfaces_loop load fs2 d2 files ds' ss'" for ds' ss'
    using Cons.prems by (intro Cons.IH) simp
  show ?case
  proof (cases "process_file load fs2 (d2 @ [f])")
    case (Inl e)
    then show ?thesis by (simp add: p)
  next
    case (Inr r)
    then show ?thesis by (cases r) (simp add: p ih)
  qed
qed

lemma render_cong:
  assumes "iterdir fs1 d1 = Inr names1" and "iterdir fs2 d2 = Inr names2"
    and "mset (filter (\<lambda>n. suffix n = ''.json'') names1)
       = mset (filter (\<lambda>n. suffix n = ''.json'') names2)"
    and "\<forall>f\<in>set names1. suffix f = ''.json'' \<longrightarrow>
           open_read fs1 (d1 @ [f]) = open_read fs2 (d2 @ [f])"
  shows "render load fs1 d1 output_fn = render load fs2 d2 output_fn"
proof -
  let ?files = "sort (filter (\<lambda>n. suffix n = ''.json'') names1)"
  have "sort (filter (\<lambda>n. suffix n = ''.json'') names2) = ?files"
    using assms(3) by (intro properties_for_sort) simp_all
  then have f: "interface_files fs1 d1 = Inr ?files" "interface_files fs2 d2 = Inr ?files"
    using assms(1,2) by (simp_all add: interface_files_def)
  have "\<forall>f\<in>set ?files. open_read fs1 (d1 @ [f]) = open_read fs2 (d2 @ [f])"
    using assms(4) by simp
  then have "interfaces_loop load fs1 d1 ?files [] [] = interfaces_loop load fs2 d2 ?files [] []"
    by (rule interfaces_loop_cong)
  with f show ?thesis by (simp add: render_def)
qed

lemma generate_interfaces_write_Success:
  assumes "generate_interfaces load fs d output_dir output_fn False = (Success, fs')"
  shows "\<exists>h s. render load fs d output_fn = Inr (h, s)
    \<and> node_at fs' (generated_header output_dir output_fn) = Some (File h)
    \<and> node_at fs' (generated_source output_dir output_fn) = Some (File s)"
proof (cases "render load fs d output_fn")
  case (Inl e)
  with assms show ?thesis by (simp add: generate_interfaces_def)
next
  case (Inr r)
  obtain h s where r: "r = (h, s)" by (cases r)
  with Inr assms have "write_outputs fs output_dir output_fn h s = (Success, fs')"
    by (simp add: generate_interfaces_def)
  from write_outputs_Success [OF this] Inr r show ?thesis by simp
qed

text \<open>
  Claim C8. The two texts depend on nothing but the \<^verbatim>\<open>.json\<close> entries of the input
  directory, what is read from them, and the base name. Two file systems whose input
  directories hold the same such names, listed in any order, with the same content, give
  the same result of rendering whatever else differs between them; and when both runs
  write, the header files hold the same text and so do the source files.
\<close>

theorem render_deterministic:
  assumes "iterdir fs1 d1 = Inr names1" and "iterdir fs2 d2 = Inr names2"
    and "mset (filter (\<lambda>n. suffix n = ''.json'') names1)
       = mset (filter (\<lambda>n. suffix n = ''.json'') names2)"
    and "\<forall>f\<in>set names1. suffix f = ''.json'' \<longrightarrow>
           open_read fs1 (d1 @ [f]) = open_read fs2 (d2 @ [f])"
  shows "render load fs1 d1 output_fn = render load fs2 d2 output_fn
    \<and> (generate_interfaces load fs1 d1 out1 output_fn False = (Success, fs1')
       \<and> generate_interfaces load fs2 d2 out2 output_fn False = (Success, fs2')
       \<longrightarrow> node_at fs1' (generated_header out1 output_fn)
             = node_at fs2' (generated_header out2 output_fn)
         \<and> node_at fs1' (generated_source out1 output_fn)
             = node_at fs2' (generated_source out2 output_fn))"
proof (intro conjI impI)
  show r: "render load fs1 d1 output_fn = render load fs2 d2 output_fn"
    using assms by (rule render_cong)
  assume g: "generate_interfaces load fs1 d1 out1 output_fn False = (Success, fs1')
       \<and> generate_interfaces load fs2 d2 out2 output_fn False = (Success, fs2')"
  from g generate_interfaces_write_Success [of load fs1 d1 out1 output_fn fs1']
  obtain h1 s1 where 1: "render load fs1 d1 output_fn = Inr (h1, s1)"
    "node_at fs1' (generated_header out1 output_fn) = Some (File h1)"
    "node_at fs1' (generated_source out1 output_fn) = Some (File s1)"
    by blast
  from g generate_interfaces_write_Success [of load fs2 d2 out2 output_fn fs2']
  obtain h2 s2 where 2: "render load fs2 d2 output_fn = Inr (h2, s2)"
    "node_at fs2' (generated_header out2 output_fn) = Some (File h2)"
    "node_at fs2' (generated_source out2 output_fn) = Some (File s2)"
    by blast
  from r 1(1) 2(1) have "h1 = h2" "s1 = s2" by simp_all
  with 1 2 show "node_at fs1' (generated_header out1 output_fn)
             = node_at fs2' (generated_header out2 output_fn)"
    and "node_at fs1' (generated_source out1 output_fn)
             = node_at fs2' (generated_source out2 output_fn)"
    by simp_all
qed

text \<open>
  Two file systems that list the same two documents in opposite orders; the second one has
  a further file and a further directory, and its run writes to that directory.
\<close>

lemma example_two_runs:
  "iterdir (example_fs [(''b.json'', ''temperature''), (''a.json'', ''hyphen'')]) [''in'']
     = Inr [''b.json'', ''a.json'']"
  "iterdir (([''tmp''], Dir) # example_fs [(''a.json'', ''hyphen''), (''notes.txt'', ''remember''),
                                           (''b.json'', ''temperature'')]) [''in'']
     = Inr [''a.json'', ''notes.txt'', ''b.json'']"
  "filter (\<lambda>n. suffix n = ''.json'') [''b.json'', ''a.json''] = [''b.json'', ''a.json'']"
  "filter (\<lambda>n. suffix n = ''.json'') [''a.json'', ''notes.txt'', ''b.json'']
     = [''a.json'', ''b.json'']"
  "open_read (example_fs [(''b.json'', ''temperature''), (''a.json'', ''hyphen'')])
       ([''in''] @ [''a.json''])
     = open_read (([''tmp''], Dir) # example_fs [(''a.json'', ''hyphen''),
          (''notes.txt'', ''remember''), (''b.json'', ''temperature'')]) ([''in''] @ [''a.json''])"
  "open_read (example_fs [(''b.json'', ''temperature''), (''a.json'', ''hyphen'')])
       ([''in''] @ [''b.json''])
     = open_read (([''tmp''], Dir) # example_fs [(''a.json'', ''hyphen''),
          (''notes.txt'', ''remember''), (''b.json'', ''temperature'')]) ([''in''] @ [''b.json''])"
  "fst (generate_interfaces example_load
          (example_fs [(''b.json'', ''temperature''), (''a.json'', ''hyphen'')])
          [''in''] [''in''] ''generated_interfaces'' False) = Success"
  "fst (generate_interfaces example_load
          (([''tmp''], Dir) # example_fs [(''a.json'', ''hyphen''), (''notes.txt'', ''remember''),
                                          (''b.json'', ''temperature'')])
          [''in''] [''tmp''] ''generated_interfaces'' False) = Success"
  by code_simp+

theorem render_deterministic_witness:
  "render example_load
     (example_fs [(''b.json'', ''temperature''), (''a.json'', ''hyphen'')])
     [''in''] ''generated_interfaces''
   = render example_load
       (([''tmp''], Dir) # example_fs [(''a.json'', ''hyphen''), (''notes.txt'', ''remember''),
                                       (''b.json'', ''temperature'')])
       [''in''] ''generated_interfaces''
   \<and> node_at (snd (generate_interfaces example_load
          (example_fs [(''b.json'', ''temperature''), (''a.json'', ''hyphen'')])
          [''in''] [''in''] ''generated_interfaces'' False))
        (generated_header [''in''] ''generated_interfaces'')
     = node_at (snd (generate_interfaces example_load
          (([''tmp''], Dir) # example_fs [(''a.json'', ''hyphen''), (''notes.txt'', ''remember''),
                                          (''b.json'', ''temperature'')])
          [''in''] [''tmp''] ''generated_interfaces'' False))
        (generated_header [''tmp''] ''generated_interfaces'')
   \<and> node_at (snd (generate_interfaces example_load
          (example_fs [(''b.json'', ''temperature''), (''a.json'', ''hyphen'')])
          [''in''] [''in''] ''generated_interfaces'' False))
        (generated_source [''in''] ''generated_interfaces'')
     = node_at (snd (generate_interfaces example_load
          (([''tmp''], Dir) # example_fs [(''a.json'', ''hyphen''), (''notes.txt'', ''remember''),
                                          (''b.json'', ''temperature'')])
          [''in''] [''tmp''] ''generated_interfaces'' False))
        (generated_source [''tmp''] ''generated_interfaces'')"
proof -
  let ?fs1 = "example_fs [(''b.json'', ''temperature''), (''a.json'', ''hyphen'')]"
  let ?fs2 = "([''tmp''], Dir) # example_fs [(''a.json'', ''hyphen''),
      (''notes.txt'', ''remember''), (''b.json'', ''temperature'')]"
  let ?g1 = "generate_interfaces example_load ?fs1 [''in''] [''in''] ''generated_interfaces'' False"
  let ?g2 = "generate_interfaces example_load ?fs2 [''in''] [''tmp''] ''generated_interfaces'' False"
  have m: "mset (filter (\<lambda>n. suffix n = ''.json'') [''b.json'', ''a.json''])
      = mset (filter (\<lambda>n. suffix n = ''.json'') [''a.json'', ''notes.txt'', ''b.json''])"
    unfolding example_two_runs(3,4) by simp
  have r: "\<forall>f\<in>set [''b.json'', ''a.json'']. suffix f = ''.json'' \<longrightarrow>
      open_read ?fs1 ([''in''] @ [f]) = open_read ?fs2 ([''in''] @ [f])"
    using example_two_runs(5,6) by simp
  have g: "?g1 = (Success, snd ?g1) \<and> ?g2 = (Success, snd ?g2)"
    using example_two_runs(7,8) by (metis prod.collapse)
  from render_deterministic [OF example_two_runs(1,2) m r, of example_load
      "''generated_interfaces''" "[''in'']" "snd ?g1" "[''tmp'']" "snd ?g2"] g
  show ?thesis by blast
qed

section \<open>Writing, then checking\<close>

text \<open>
  Claim C6. A run in write mode followed by a run in check mode over the same directories
  and base name should succeed. It does not when the first run has to make an output
  directory whose way down from the input directory starts with a name ending in
  \<^verbatim>\<open>.json\<close>: the first run succeeds and makes that directory, the second run takes it for
  an interface file, and \<^verbatim>\<open>open\<close> raises \<^verbatim>\<open>IsADirectoryError\<close>. Here the input directory
  is \<^verbatim>\<open>/in\<close> with the file of the scenario, and the output directory is \<^verbatim>\<open>/in/out.json\<close>.
\<close>

theorem write_then_check_fails:
  "\<not> exists (example_fs [(''org.Temp.json'', ''temperature'')]) [''in'', ''out.json'']
   \<and> fst (generate_interfaces example_load (example_fs [(''org.Temp.json'', ''temperature'')])
          [''in''] [''in'', ''out.json''] ''generated_interfaces'' False) = Success
   \<and> fst (generate_interfaces example_load
          (snd (generate_interfaces example_load
                  (example_fs [(''org.Temp.json'', ''temperature'')])
                  [''in''] [''in'', ''out.json''] ''generated_interfaces'' False))
          [''in''] [''in'', ''out.json''] ''generated_interfaces'' True)
     = Uncaught (IsADirectoryError [''in'', ''out.json''])"
  by code_simp

text \<open>
  That directory is the only obstacle. The header and the source never have the suffix
  \<^verbatim>\<open>.json\<close>, and a write leaves every other entry as it is; so the second run finds the
  files of the first run, reads the same documents, and renders the same two texts.
\<close>

lemma children_update:
  "children (AList.update p n fs) d =
     (if p \<in> set (map fst fs) \<or> p = [] \<or> butlast p \<noteq> d then children fs d
      else children fs d @ [last p])"
  by (auto simp: children_def update_keys)

lemma suffix_append_dot:
  "suffix (fn @ [CHR ''.'', c]) = (if fn = [] \<or> c = CHR ''.'' then [] else [CHR ''.'', c])"
  by (auto simp: suffix_def rfind_def Let_def)

lemma suffix_generated [simp]:
  "suffix (output_fn @ ''.h'') \<noteq> ''.json''" "suffix (output_fn @ ''.c'') \<noteq> ''.json''"
  using suffix_append_dot [of output_fn "CHR ''h''"] suffix_append_dot [of output_fn "CHR ''c''"]
  by (simp_all split: if_splits)

lemma json_children_update:
  assumes "p = [] \<or> butlast p \<noteq> d \<or> suffix (last p) \<noteq> ''.json''"
  shows "filter (\<lambda>n. suffix n = ''.json'') (children (AList.update p n fs) d)
       = filter (\<lambda>n. suffix n = ''.json'') (children fs d)"
  using assms by (auto simp: children_update)

lemma child_exists:
  assumes "f \<in> set (children fs d)"
  shows "node_at fs (d @ [f]) \<noteq> None"
proof -
  from assms obtain p where p: "p \<in> set (map fst fs)" "p \<noteq> []" "butlast p = d" "last p = f"
    by (auto simp: children_def)
  then have "p = d @ [f]" by (metis append_butlast_last_id)
  with p(1) have "map_of fs (d @ [f]) \<noteq> None"
    by (simp add: map_of_eq_None_iff)
  then show ?thesis by (simp add: node_at_def)
qed

lemma open_read_same_node:
  assumes "node_at fs1 p = node_at fs2 p" and "node_at fs1 p \<noteq> None"
  shows "open_read fs1 p = open_read fs2 p"
  using assms by (auto simp: open_read_def split: option.splits)

lemma open_write_not_dir:
  "open_write fs p s = Inr fs' \<Longrightarrow> node_at fs p \<noteq> Some Dir"
  by (auto simp: open_write_def)

lemma mkdir_Inr:
  assumes "mkdir fs p = Inr fs1"
  shows "fs1 = AList.update p Dir fs \<and> node_at fs p = None \<and> p \<noteq> []"
  using assms by (auto simp: mkdir_def exists_def node_at_def split: if_splits)

lemma mkdir_keeps:
  assumes "mkdir fs p = Inr fs1"
    and "butlast p = d \<longrightarrow> suffix (last p) \<noteq> ''.json''"
  shows "(\<forall>q. node_at fs q \<noteq> None \<longrightarrow> node_at fs1 q = node_at fs q)
    \<and> filter (\<lambda>n. suffix n = ''.json'') (children fs1 d)
        = filter (\<lambda>n. suffix n = ''.json'') (children fs d)
    \<and> node_at fs1 p = Some Dir"
proof -
  from mkdir_Inr [OF assms(1)] have
    a: "fs1 = AList.update p Dir fs" "node_at fs p = None" "p \<noteq> []"
    by simp_all
  have "\<forall>q. node_at fs q \<noteq> None \<longrightarrow> node_at fs1 q = node_at fs q"
    using a by (auto simp: node_at_update)
  moreover have "filter (\<lambda>n. suffix n = ''.json'') (children fs1 d)
        = filter (\<lambda>n. suffix n = ''.json'') (children fs d)"
    unfolding a(1) using assms(2) by (intro json_children_update) blast
  moreover have "node_at fs1 p = Some Dir"
    using a by (simp add: node_at_update)
  ultimately show ?thesis by blast
qed

lemma makedirs_keeps:
  assumes "makedirs fs p = Inr fs1"
    and "\<forall>q r. p = q @ r \<longrightarrow> q \<noteq> [] \<longrightarrow> butlast q = d \<longrightarrow> suffix (last q) \<noteq> ''.json''"
  shows "(\<forall>q. node_at fs q \<noteq> None \<longrightarrow> node_at fs1 q = node_at fs q)
    \<and> filter (\<lambda>n. suffix n = ''.json'') (children fs1 d)
        = filter (\<lambda>n. suffix n = ''.json'') (children fs d)
    \<and> node_at fs1 p = Some Dir"
  using assms
proof (induction fs p arbitrary: fs1 rule: makedirs.induct)
  case (1 fs p)
  have last_ok: "butlast p = d \<longrightarrow> suffix (last p) \<noteq> ''.json''" if "p \<noteq> []"
    using "1.prems"(2) that by (metis append_Nil2)
  show ?case
  proof (cases "p \<noteq> [] \<and> \<not> exists fs (butlast p)")
    case False
    then have "makedirs fs p = mkdir fs p"
      by (subst makedirs.simps) auto
    with "1.prems"(1) have m: "mkdir fs p = Inr fs1" by simp
    from mkdir_Inr [OF m] have "p \<noteq> []" by simp
    from mkdir_keeps [OF m last_ok [OF this]] show ?thesis .
  next
    case True
    then have none: "node_at fs (butlast p) = None"
      by (simp add: exists_def)
    have unfold: "makedirs fs p =
        (case makedirs fs (butlast p) of
           Inr fs' \<Rightarrow> mkdir fs' p
         | Inl (FileExistsError q) \<Rightarrow> mkdir fs p
         | Inl e \<Rightarrow> Inl e)"
      using True by (subst makedirs.simps) simp
    show ?thesis
    proof (cases "makedirs fs (butlast p)")
      case (Inl e)
      have "mkdir fs p \<noteq> Inr fs1"
        using none True by (auto simp: mkdir_def)
      with Inl "1.prems"(1) show ?thesis
        unfolding unfold by (cases e) simp_all
    next
      case (Inr fs0)
      have pre: "\<forall>q r. butlast p = q @ r \<longrightarrow> q \<noteq> [] \<longrightarrow> butlast q = d
          \<longrightarrow> suffix (last q) \<noteq> ''.json''"
      proof (intro allI impI)
        fix q r
        assume "butlast p = q @ r" and q: "q \<noteq> []" "butlast q = d"
        then have "p = q @ (r @ [last p])"
          using True by (metis append_assoc append_butlast_last_id)
        with "1.prems"(2) q show "suffix (last q) \<noteq> ''.json''" by blast
      qed
      from "1.IH" [OF True Inr pre] have
        ih: "\<forall>q. node_at fs q \<noteq> None \<longrightarrow> node_at fs0 q = node_at fs q"
          "filter (\<lambda>n. suffix n = ''.json'') (children fs0 d)
            = filter (\<lambda>n. suffix n = ''.json'') (children fs d)"
        by simp_all
      have m: "mkdir fs0 p = Inr fs1"
        using Inr "1.prems"(1) unfolding unfold by simp
      from True have "p \<noteq> []" by simp
      from mkdir_keeps [OF m last_ok [OF this]] have
        k: "\<forall>q. node_at fs0 q \<noteq> None \<longrightarrow> node_at fs1 q = node_at fs0 q"
          "filter (\<lambda>n. suffix n = ''.json'') (children fs1 d)
            = filter (\<lambda>n. suffix n = ''.json'') (children fs0 d)"
          "node_at fs1 p = Some Dir"
        by simp_all
      have "\<forall>q. node_at fs q \<noteq> None \<longrightarrow> node_at fs1 q = node_at fs q"
        using ih(1) k(1) by metis
      with ih(2) k(2,3) show ?thesis by simp
    qed
  qed
qed

lemma no_json_entry_on_the_way:
  assumes "\<not> json_entry_on_the_way d output_dir"
  shows "\<forall>q r. output_dir = q @ r \<longrightarrow> q \<noteq> [] \<longrightarrow> butlast q = d
      \<longrightarrow> suffix (last q) \<noteq> ''.json''"
proof (intro allI impI)
  fix q r
  assume o: "output_dir = q @ r" and q: "q \<noteq> []" "butlast q = d"
  then have e: "q = d @ [last q]" by (metis append_butlast_last_id)
  then have "output_dir = d @ last q # r" using o by (metis append_Cons append_Nil append_assoc)
  then have "length d < length output_dir" "take (length d) output_dir = d"
    "output_dir ! length d = last q"
    by simp_all
  with assms show "suffix (last q) \<noteq> ''.json''"
    by (auto simp: json_entry_on_the_way_def)
qed

lemma render_Inr_dir:
  assumes "render load fs d output_fn = Inr r"
  shows "node_at fs d = Some Dir"
  using assms
  by (auto simp: render_def interface_files_def iterdir_def
      split: sum.splits option.splits node.splits)

lemma iterdir_dir:
  "node_at fs d = Some Dir \<Longrightarrow> iterdir fs d = Inr (children fs d)"
  by (simp add: iterdir_def)

text \<open>
  Whenever the run in write mode succeeds and the output directory does not lie below the
  input directory behind a name ending in \<^verbatim>\<open>.json\<close>, the run in check mode over the file
  system it leaves succeeds and changes nothing.
\<close>

lemma write_then_check:
  assumes w: "generate_interfaces load fs d output_dir output_fn False = (Success, fs')"
    and j: "\<not> json_entry_on_the_way d output_dir"
  shows "generate_interfaces load fs' d output_dir output_fn True = (Success, fs')"
proof -
  let ?hp = "generated_header output_dir output_fn"
  let ?sp = "generated_source output_dir output_fn"
  let ?json = "\<lambda>n. suffix n = ''.json''"
  from generate_interfaces_write_Success [OF w] obtain h s where
    r: "render load fs d output_fn = Inr (h, s)"
    and hs: "node_at fs' ?hp = Some (File h)" "node_at fs' ?sp = Some (File s)"
    by blast
  from r w have wo: "write_outputs fs output_dir output_fn h s = (Success, fs')"
    by (simp add: generate_interfaces_def)
  then obtain fs1 fs2 where
    m: "(if \<not> exists fs output_dir then makedirs fs output_dir else Inr fs) = Inr fs1"
    and w1: "open_write fs1 ?hp h = Inr fs2" and w2: "open_write fs2 ?sp s = Inr fs'"
    unfolding write_outputs_def by (auto split: sum.splits)
  have k: "(\<forall>q. node_at fs q \<noteq> None \<longrightarrow> node_at fs1 q = node_at fs q)
      \<and> filter ?json (children fs1 d) = filter ?json (children fs d)
      \<and> node_at fs1 output_dir \<noteq> None"
  proof (cases "exists fs output_dir")
    case True
    with m have "fs1 = fs" by simp
    with True show ?thesis by (simp add: exists_def)
  next
    case False
    with m have "makedirs fs output_dir = Inr fs1" by simp
    from makedirs_keeps [OF this no_json_entry_on_the_way [OF j]] show ?thesis by simp
  qed
  have fs2: "fs2 = AList.update ?hp (File h) fs1" and fs': "fs' = AList.update ?sp (File s) fs2"
    using open_write_Inr [OF w1] open_write_Inr [OF w2] by simp_all
  have nd1: "node_at fs1 ?hp \<noteq> Some Dir" and nd2: "node_at fs2 ?sp \<noteq> Some Dir"
    using open_write_not_dir [OF w1] open_write_not_dir [OF w2] by simp_all
  have n2: "node_at fs2 q = (if q = ?hp then Some (File h) else node_at fs1 q)" for q
    unfolding fs2 by (simp add: node_at_update)
  have n': "node_at fs' q = (if q = ?sp then Some (File s) else node_at fs2 q)" for q
    unfolding fs' by (simp add: node_at_update)
  have d0: "node_at fs d = Some Dir" by (rule render_Inr_dir [OF r])
  then have d1: "node_at fs1 d = Some Dir" using k by simp
  then have d2: "node_at fs2 d = Some Dir" using nd1 by (auto simp: n2)
  then have d': "node_at fs' d = Some Dir" using nd2 by (auto simp: n')
  have c2: "filter ?json (children fs2 d) = filter ?json (children fs1 d)"
    unfolding fs2 by (intro json_children_update) (simp add: generated_header_def)
  have c': "filter ?json (children fs' d) = filter ?json (children fs2 d)"
    unfolding fs' by (intro json_children_update) (simp add: generated_source_def)
  have c: "filter ?json (children fs d) = filter ?json (children fs' d)"
    using k c2 c' by simp
  have o: "\<forall>f\<in>set (children fs d). suffix f = ''.json'' \<longrightarrow>
      open_read fs (d @ [f]) = open_read fs' (d @ [f])"
  proof (intro ballI impI)
    fix f
    assume f: "f \<in> set (children fs d)" and sf: "suffix f = ''.json''"
    from child_exists [OF f] have e: "node_at fs (d @ [f]) \<noteq> None" .
    have "d @ [f] \<noteq> ?hp" "d @ [f] \<noteq> ?sp"
      using sf by (auto simp: generated_header_def generated_source_def)
    then have "node_at fs' (d @ [f]) = node_at fs (d @ [f])"
      using e k by (simp add: n' n2)
    with e show "open_read fs (d @ [f]) = open_read fs' (d @ [f])"
      by (intro open_read_same_node) simp_all
  qed
  have "render load fs d output_fn = render load fs' d output_fn"
    using iterdir_dir [OF d0] iterdir_dir [OF d'] _ o
    by (rule render_cong) (simp add: c)
  with r have r': "render load fs' d output_fn = Inr (h, s)" by simp
  have "node_at fs' output_dir \<noteq> None"
    using k by (simp add: n' n2)
  then have "check_outputs fs' output_dir output_fn h s = Success"
    using hs by (simp add: check_outputs_def exists_def open_read_def)
  with r' show ?thesis by (simp add: generate_interfaces_def)
qed

text \<open>The scenario with an output directory \<^verbatim>\<open>/out\<close> that the first run makes.\<close>

lemma scenario_write:
  "fst (generate_interfaces example_load (example_fs [(''org.Temp.json'', ''temperature'')])
          [''in''] [''out''] ''generated_interfaces'' False) = Success
   \<and> \<not> json_entry_on_the_way [''in''] [''out'']"
  by code_simp

lemma write_then_check_scenario:
  "generate_interfaces example_load
     (snd (generate_interfaces example_load (example_fs [(''org.Temp.json'', ''temperature'')])
             [''in''] [''out''] ''generated_interfaces'' False))
     [''in''] [''out''] ''generated_interfaces'' True
   = (Success,
      snd (generate_interfaces example_load (example_fs [(''org.Temp.json'', ''temperature'')])
             [''in''] [''out''] ''generated_interfaces'' False))"
proof -
  let ?g = "generate_interfaces example_load (example_fs [(''org.Temp.json'', ''temperature'')])
      [''in''] [''out''] ''generated_interfaces'' False"
  have "?g = (Success, snd ?g)"
    using scenario_write by (metis prod.collapse)
  then show ?thesis
    using scenario_write by (intro write_then_check) simp_all
qed

end
